theory Spec2Isabelle
  imports Complex_Main "HOL-Library.AList" "HOL-Library.Multiset"
begin

section \<open>JavaScript values\<close>

text \<open>
  The backend is written in JavaScript. A number is a double: not-a-number, an infinity
  (\<open>True\<close> for the positive one) or a finite value, which is kept here as a rational
  (the two zeros are one value: they compare equal, and both are falsy).
  An object is the list of its own properties in the order in which they were created
  (insertion order); the keys of an object are distinct. What it inherits from its prototype
  is not in the list: a read that walks the prototype chain says so where it is made.
\<close>

datatype jsnum = NaN | Infinity bool | Fin rat

datatype jsval =
    JUndefined
  | JNull
  | JBool bool
  | JNumber jsnum
  | JString string
  | JObject "(string \<times> jsval) list"

type_synonym jsobj = "(string \<times> jsval) list"

text \<open>Truthiness, as \<open>!\<close>, \<open>||\<close> and \<open>if\<close> test it.\<close>

fun truthy :: "jsval \<Rightarrow> bool" where
  "truthy JUndefined = False"
| "truthy JNull = False"
| "truthy (JBool b) = b"
| "truthy (JNumber NaN) = False"
| "truthy (JNumber (Infinity _)) = True"
| "truthy (JNumber (Fin r)) = (r \<noteq> 0)"
| "truthy (JString s) = (s \<noteq> [])"
| "truthy (JObject _) = True"

text \<open>\<open>a || b\<close>\<close>

definition js_or :: "jsval \<Rightarrow> jsval \<Rightarrow> jsval" where
  "js_or a b = (if truthy a then a else b)"

text \<open>
  \<open>obj.k\<close> for the fixed names that the code reads (\<open>isAdmin\<close>, \<open>id\<close>, \<open>password\<close>, ...),
  none of which is inherited from \<open>Object.prototype\<close>: a missing property reads as
  \<open>undefined\<close>.
\<close>

definition get_prop :: "jsobj \<Rightarrow> string \<Rightarrow> jsval" where
  "get_prop obj k = (case map_of obj k of None \<Rightarrow> JUndefined | Some v \<Rightarrow> v)"

text \<open>
  \<open>obj[k] = v\<close>: an existing property keeps its place, a new one goes last.
  \<open>delete obj[k]\<close> removes the property.
\<close>

definition set_prop :: "jsobj \<Rightarrow> string \<Rightarrow> jsval \<Rightarrow> jsobj" where
  "set_prop obj k v = AList.update k v obj"

definition delete_prop :: "jsobj \<Rightarrow> string \<Rightarrow> jsobj" where
  "delete_prop obj k = AList.delete k obj"

text \<open>Decimal digits of a natural number, as a template literal prints an index.\<close>

fun string_of_nat :: "nat \<Rightarrow> string" where
  "string_of_nat n =
     (if n < 10 then [''0123456789'' ! n]
      else string_of_nat (n div 10) @ [''0123456789'' ! (n mod 10)])"

declare string_of_nat.simps [simp del]

text \<open>Reading a decimal numeral back, to say which number a printed parameter denotes.\<close>

definition digit_value :: "char \<Rightarrow> nat" where
  "digit_value c = of_char c - 48"

definition nat_of_digits :: "string \<Rightarrow> nat" where
  "nat_of_digits ds = foldl (\<lambda>acc c. 10 * acc + digit_value c) 0 ds"

text \<open>
  A key is an array index when it is the canonical decimal numeral of an integer below
  \<open>2^32 - 1\<close>. \<open>Object.keys\<close> and \<open>Object.values\<close> walk the own properties of an object
  in the same order: the array indices first, by ascending value, then the other keys in
  insertion order.
\<close>

definition is_array_index :: "string \<Rightarrow> bool" where
  "is_array_index k \<longleftrightarrow> k = string_of_nat (nat_of_digits k) \<and> nat_of_digits k < 4294967295"

definition object_entries :: "jsobj \<Rightarrow> jsobj" where
  "object_entries obj =
     sort_key (\<lambda>p. nat_of_digits (fst p)) (filter (\<lambda>p. is_array_index (fst p)) obj)
     @ filter (\<lambda>p. \<not> is_array_index (fst p)) obj"

definition object_keys :: "jsobj \<Rightarrow> string list" where
  "object_keys obj = map fst (object_entries obj)"

definition object_values :: "jsobj \<Rightarrow> jsval list" where
  "object_values obj = map snd (object_entries obj)"

text \<open>
  \<open>ToNumber\<close>. What a string parses to, and what an object converts to through
  \<open>valueOf\<close> and \<open>toString\<close>, is the runtime's business: \<open>coerce\<close> stands for it.
\<close>

fun to_number :: "(jsval \<Rightarrow> jsnum) \<Rightarrow> jsval \<Rightarrow> jsnum" where
  "to_number coerce JUndefined = NaN"
| "to_number coerce JNull = Fin 0"
| "to_number coerce (JBool b) = Fin (if b then 1 else 0)"
| "to_number coerce (JNumber n) = n"
| "to_number coerce (JString s) = coerce (JString s)"
| "to_number coerce (JObject fs) = coerce (JObject fs)"

text \<open>\<open>x <= y\<close> on numbers: false as soon as one side is not a number.\<close>

fun num_le :: "jsnum \<Rightarrow> jsnum \<Rightarrow> bool" where
  "num_le NaN _ = False"
| "num_le _ NaN = False"
| "num_le (Fin a) (Fin b) = (a \<le> b)"
| "num_le (Fin _) (Infinity pos) = pos"
| "num_le (Infinity pos) (Fin _) = (\<not> pos)"
| "num_le (Infinity p) (Infinity q) = (p \<longrightarrow> q)"

text \<open>\<open>v <= n\<close> for a number \<open>n\<close>: the left side goes through \<open>ToNumber\<close>.\<close>

definition js_le_num :: "(jsval \<Rightarrow> jsnum) \<Rightarrow> jsval \<Rightarrow> jsnum \<Rightarrow> bool" where
  "js_le_num coerce v n = num_le (to_number coerce v) n"

text \<open>\<open>xs.join(sep)\<close>\<close>

fun join_str :: "string \<Rightarrow> string list \<Rightarrow> string" where
  "join_str sep [] = []"
| "join_str sep [x] = x"
| "join_str sep (x # y # ys) = x @ sep @ join_str sep (y # ys)"

section \<open>Errors\<close>

text \<open>
  Modelled from the spec: the error classes of \<open>expressError.js\<close>, which the models and
  helpers import and throw. Each carries the message it was built with; its kind is what the
  boundary handler turns into a status. \<open>OtherError\<close> is any failure raised by a library.
\<close>

datatype error =
    UnauthorizedError string
  | BadRequestError string
  | NotFoundError string
  | OtherError string

datatype error_kind = Unauthorized | BadRequest | NotFound | Other

fun kind :: "error \<Rightarrow> error_kind" where
  "kind (UnauthorizedError _) = Unauthorized"
| "kind (BadRequestError _) = BadRequest"
| "kind (NotFoundError _) = NotFound"
| "kind (OtherError _) = Other"

section \<open>helpers/sql.js\<close>

text \<open>
  The name map is an object literal that holds column names, which are strings; the list is
  its own properties. Its prototype is \<open>Object.prototype\<close>, and a property read that finds
  no own property finds what is inherited from there. Each inherited member is a function,
  or for \<open>__proto__\<close> the prototype object itself, so each is truthy; it is given here by the
  text that a template literal prints for it.
\<close>

definition native_function :: "string \<Rightarrow> string" where
  "native_function name = ''function '' @ name @ ''() { [native code] }''"

definition object_prototype :: "(string \<times> string) list" where
  "object_prototype =
     [(''constructor'', native_function ''Object''),
      (''__defineGetter__'', native_function ''__defineGetter__''),
      (''__defineSetter__'', native_function ''__defineSetter__''),
      (''hasOwnProperty'', native_function ''hasOwnProperty''),
      (''__lookupGetter__'', native_function ''__lookupGetter__''),
      (''__lookupSetter__'', native_function ''__lookupSetter__''),
      (''isPrototypeOf'', native_function ''isPrototypeOf''),
      (''propertyIsEnumerable'', native_function ''propertyIsEnumerable''),
      (''toString'', native_function ''toString''),
      (''valueOf'', native_function ''valueOf''),
      (''__proto__'', ''[object Object]''),
      (''toLocaleString'', native_function ''toLocaleString'')]"

text \<open>
  \<open>jsToSql[colName] || colName\<close>, as the template literal then prints it: an own column name
  unless it is the empty string, which is falsy; else an inherited member; else the key.
\<close>

definition column_name :: "(string \<times> string) list \<Rightarrow> string \<Rightarrow> string" where
  "column_name jsToSql colName =
     (case map_of jsToSql colName of
        Some c \<Rightarrow> if c \<noteq> [] then c else colName
      | None \<Rightarrow>
          (case map_of object_prototype colName of
             Some inherited \<Rightarrow> inherited
           | None \<Rightarrow> colName))"

text \<open>One fragment of the SET clause: the column in double quotes, \<open>=$\<close>, the index plus one.\<close>

definition set_fragment :: "(string \<times> string) list \<Rightarrow> nat \<times> string \<Rightarrow> string" where
  "set_fragment jsToSql p =
     [CHR 0x22] @ column_name jsToSql (snd p) @ [CHR 0x22] @ ''=$'' @ string_of_nat (fst p + 1)"

text \<open>\<open>keys.map((colName, idx) => ...)\<close>\<close>

definition set_cols :: "jsobj \<Rightarrow> (string \<times> string) list \<Rightarrow> string list" where
  "set_cols dataToUpdate jsToSql =
     map (set_fragment jsToSql) (enumerate 0 (object_keys dataToUpdate))"

record sql_update =
  setCols :: string
  values_r :: "jsval list"

definition sqlForPartialUpdate :: "jsobj \<Rightarrow> (string \<times> string) list \<Rightarrow> error + sql_update" where
  "sqlForPartialUpdate dataToUpdate jsToSql =
     (let keys = object_keys dataToUpdate in
      if length keys = 0 then Inl (BadRequestError ''No data'')
      else Inr \<lparr> setCols = join_str '', '' (set_cols dataToUpdate jsToSql),
                 values_r = object_values dataToUpdate \<rparr>)"

section \<open>The jsonwebtoken library\<close>

text \<open>
  \<open>JSON.stringify\<close> followed by \<open>JSON.parse\<close>: a property whose value is \<open>undefined\<close> is
  dropped, a number that is not finite becomes \<open>null\<close>, everything else comes back as it was.
\<close>

primrec json_value :: "jsval \<Rightarrow> jsval" where
  "json_value JUndefined = JUndefined"
| "json_value JNull = JNull"
| "json_value (JBool b) = JBool b"
| "json_value (JNumber n) = (case n of Fin r \<Rightarrow> JNumber (Fin r) | _ \<Rightarrow> JNull)"
| "json_value (JString s) = JString s"
| "json_value (JObject fs) =
     JObject (filter (\<lambda>p. snd p \<noteq> JUndefined) (map (map_prod id json_value) fs))"

definition json_object :: "jsobj \<Rightarrow> jsobj" where
  "json_object fs = filter (\<lambda>p. snd p \<noteq> JUndefined) (map (map_prod id json_value) fs)"

text \<open>
  The library is outside the repository; its two calls are taken symbolically. A token text
  is either the signed serialisation of a claim set under a key, or something that does not
  parse as a token. Signing is symmetric (one shared secret), deterministic, and stamps the
  payload with \<open>iat\<close>. The clock is \<open>Date.now()\<close>, in milliseconds; the library works in
  whole seconds, \<open>Math.floor(Date.now() / 1000)\<close>, both for \<open>iat\<close> and for the reading
  that it holds against \<open>exp\<close>. Verifying checks the signature against the secret and then
  the \<open>exp\<close> claim, when there is one, against the clock.
\<close>

datatype jwt_text = Signed jsobj string | Malformed string

datatype jwt_error = JsonWebTokenError string | TokenExpiredError

definition jwt_sign :: "jsobj \<Rightarrow> string \<Rightarrow> nat \<Rightarrow> jwt_text" where
  "jwt_sign payload secret clock =
     Signed (json_object (set_prop payload ''iat'' (JNumber (Fin (of_nat (clock div 1000)))))) secret"

fun jwt_verify :: "jwt_text \<Rightarrow> string \<Rightarrow> nat \<Rightarrow> jwt_error + jsobj" where
  "jwt_verify (Malformed _) secret clock = Inl (JsonWebTokenError ''jwt malformed'')"
| "jwt_verify (Signed claims k) secret clock =
     (if k \<noteq> secret then Inl (JsonWebTokenError ''invalid signature'')
      else case get_prop claims ''exp'' of
             JUndefined \<Rightarrow> Inr claims
           | JNumber (Fin e) \<Rightarrow>
               if e \<le> of_nat (clock div 1000) then Inl TokenExpiredError else Inr claims
           | _ \<Rightarrow> Inl (JsonWebTokenError ''invalid exp value''))"

section \<open>helpers/tokens.js\<close>

text \<open>
  \<open>createToken(user)\<close> writes to its argument before it builds the payload, so the model
  returns the token together with the user object as the call leaves it. \<open>SECRET_KEY\<close> comes
  from the configuration and the clock from the runtime.
\<close>

definition createToken :: "string \<Rightarrow> nat \<Rightarrow> jsobj \<Rightarrow> jwt_text \<times> jsobj" where
  "createToken SECRET_KEY clock user =
     (let user' = (if get_prop user ''isAdmin'' = JUndefined
                   then set_prop user ''isAdmin'' (JBool False) else user);
          payload = [(''id'', get_prop user' ''id''),
                     (''isAdmin'', js_or (get_prop user' ''isAdmin'') (JBool False)),
                     (''companyId'', get_prop user' ''companyId'')]
      in (jwt_sign payload SECRET_KEY clock, user'))"

section \<open>middleware/auth.js\<close>

text \<open>
  What the middleware reads of a request: the token of an \<open>Authorization\<close> header of the
  form \<open>Bearer <token>\<close>, if there is one, and the resource owner identifier the request
  implies. What it reads and writes of the response: the request-scoped identity slot
  \<open>res.locals.user\<close>.
\<close>

record request =
  bearer :: "jwt_text option"
  resource_owner :: jsval

record response =
  locals_user :: "jsobj option"

text \<open>
  Modelled from the spec: \<open>authenticateJWT\<close> of \<open>middleware/auth.js\<close>, of which only the
  tests and the callers are at hand. No header: anonymous, proceed. A header: verify against
  the shared secret; on success store the decoded claim in the identity slot, on failure
  swallow the error and proceed anonymous. The result is the response and what \<open>next\<close> is
  called with (\<open>None\<close>: no error).
\<close>

definition authenticateJWT ::
  "string \<Rightarrow> nat \<Rightarrow> request \<Rightarrow> response \<Rightarrow> response \<times> error_kind option" where
  "authenticateJWT SECRET_KEY clock req res =
     (case bearer req of
        None \<Rightarrow> (res, None)
      | Some tok \<Rightarrow>
          (case jwt_verify tok SECRET_KEY clock of
             Inr claim \<Rightarrow> (res\<lparr>locals_user := Some claim\<rparr>, None)
           | Inl err \<Rightarrow> (res, None)))"

text \<open>
  Modelled from the spec: the guard \<open>ensureLoggedIn\<close> of \<open>middleware/auth.js\<close>. It passes if
  an identity is present; otherwise it signals an Unauthorized failure. A guard's result is
  what \<open>next\<close> is called with.
\<close>

definition ensureLoggedIn :: "request \<Rightarrow> response \<Rightarrow> error_kind option" where
  "ensureLoggedIn req res =
     (case locals_user res of None \<Rightarrow> Some Unauthorized | Some user \<Rightarrow> None)"

text \<open>
  Modelled from the spec: the guard \<open>ensureAdmin\<close> of \<open>middleware/auth.js\<close>. It passes if an
  identity is present and its \<open>isAdmin\<close> flag is \<open>true\<close>; otherwise Unauthorized.
\<close>

definition ensureAdmin :: "request \<Rightarrow> response \<Rightarrow> error_kind option" where
  "ensureAdmin req res =
     (case locals_user res of
        None \<Rightarrow> Some Unauthorized
      | Some user \<Rightarrow> if get_prop user ''isAdmin'' = JBool True then None else Some Unauthorized)"

text \<open>
  Modelled from the spec: the guard \<open>ensureCorrectUserOrAdmin\<close> of \<open>middleware/auth.js\<close>. It
  passes if an identity is present and either its \<open>isAdmin\<close> flag is \<open>true\<close> or its user
  identifier matches the resource owner identifier implied by the request; otherwise
  Unauthorized.
\<close>

definition ensureCorrectUserOrAdmin :: "request \<Rightarrow> response \<Rightarrow> error_kind option" where
  "ensureCorrectUserOrAdmin req res =
     (case locals_user res of
        None \<Rightarrow> Some Unauthorized
      | Some user \<Rightarrow>
          if get_prop user ''isAdmin'' = JBool True \<or> get_prop user ''id'' = resource_owner req
          then None else Some Unauthorized)"

section \<open>models/user.js\<close>

text \<open>The \<open>users\<close> table, by the columns of the schema; \<open>email\<close> is unique.\<close>

record user_row =
  user_id :: int
  user_email :: string
  user_password :: string
  user_full_name :: string
  user_phone :: "string option"
  user_is_admin :: bool
  user_company_id :: int

text \<open>
  The SELECT of \<open>User.authenticate\<close>: the rows whose email is the parameter, each as the
  object the driver hands back, under the aliases of the query.
\<close>

definition user_object :: "user_row \<Rightarrow> jsobj" where
  "user_object r =
     [(''id'', JNumber (Fin (of_int (user_id r)))),
      (''email'', JString (user_email r)),
      (''password'', JString (user_password r)),
      (''fullName'', JString (user_full_name r)),
      (''phone'', (case user_phone r of None \<Rightarrow> JNull | Some p \<Rightarrow> JString p)),
      (''isAdmin'', JBool (user_is_admin r)),
      (''companyId'', JNumber (Fin (of_int (user_company_id r))))]"

definition select_user_by_email :: "user_row list \<Rightarrow> string \<Rightarrow> jsobj list" where
  "select_user_by_email users email =
     map user_object (filter (\<lambda>r. user_email r = email) users)"

text \<open>
  \<open>User.authenticate(email, password)\<close>. \<open>compare\<close> is \<open>bcrypt.compare\<close>, which answers
  whether the password matches the stored hash, or fails. \<open>rows[0]\<close> of an empty result is
  \<open>undefined\<close>, which is falsy; a row is an object, which is truthy.
\<close>

definition authenticate ::
  "(string \<Rightarrow> jsval \<Rightarrow> error + bool) \<Rightarrow> user_row list \<Rightarrow> string \<Rightarrow> string \<Rightarrow> error + jsobj" where
  "authenticate compare users email password =
     (case select_user_by_email users email of
        [] \<Rightarrow> Inl (UnauthorizedError ''Invalid email/password'')
      | user # _ \<Rightarrow>
          (case compare password (get_prop user ''password'') of
             Inl e \<Rightarrow> Inl e
           | Inr isValid \<Rightarrow>
               if isValid = True then Inr (delete_prop user ''password'')
               else Inl (UnauthorizedError ''Invalid email/password'')))"

section \<open>models/rfq.js\<close>

text \<open>
  \<open>Rfq.createRfqItem\<close>. \<open>query\<close> is \<open>db.query\<close> on the INSERT statement: given the
  positional values and the database it answers the returned rows or fails, and leaves the
  database as the statement left it. The argument is the object that the function
  destructures.
\<close>

definition createRfqItem ::
  "(jsval \<Rightarrow> jsnum) \<Rightarrow> (jsval list \<Rightarrow> 'db \<Rightarrow> (error + jsobj list) \<times> 'db) \<Rightarrow> jsobj \<Rightarrow> 'db
     \<Rightarrow> (error + jsval) \<times> 'db" where
  "createRfqItem coerce query args db =
     (let rfq_id = get_prop args ''rfq_id'';
          company_id = get_prop args ''company_id'';
          item_code = get_prop args ''item_code'';
          quantity = get_prop args ''quantity'';
          item_description = get_prop args ''item_description'';
          item_cost = get_prop args ''item_cost''
      in if \<not> truthy company_id then (Inl (BadRequestError ''Company ID is required.''), db)
         else if js_le_num coerce quantity (Fin 0)
         then (Inl (BadRequestError ''Quantity must be greater than 0.''), db)
         else (case query [rfq_id, company_id, item_code, quantity, item_description, item_cost] db of
                 (Inl e, db') \<Rightarrow> (Inl e, db')
               | (Inr rows, db') \<Rightarrow>
                   (Inr (case rows of [] \<Rightarrow> JUndefined | rfqItem # _ \<Rightarrow> JObject rfqItem), db')))"

section \<open>Properties of objects\<close>

lemma get_set_prop_same: "get_prop (set_prop u k v) k = v"
  by (simp add: get_prop_def set_prop_def update_conv')

lemma get_set_prop_other: "k' \<noteq> k \<Longrightarrow> get_prop (set_prop u k v) k' = get_prop u k'"
  by (simp add: get_prop_def set_prop_def update_conv')

lemma delete_set_prop_same: "delete_prop (set_prop u k v) k = delete_prop u k"
  by (simp add: delete_prop_def set_prop_def delete_update_same)

lemma get_prop_absent: "map_of u k = None \<Longrightarrow> get_prop u k = JUndefined"
  by (simp add: get_prop_def)

section \<open>Properties of the partial-update builder\<close>




lemma length_object_entries: "length (object_entries d) = length d"
  by (simp add: object_entries_def sum_length_filter_compl)


lemma set_object_entries: "set (object_entries d) = set d"
  by (auto simp: object_entries_def)

lemma set_object_keys: "set (object_keys d) = fst ` set d"
  by (simp add: object_keys_def set_object_entries)

lemma object_entries_empty: "object_entries d = [] \<longleftrightarrow> d = []"
  using length_object_entries [of d] by (metis length_0_conv)











lemma sqlForPartialUpdate_nonempty:
  "d \<noteq> [] \<Longrightarrow> sqlForPartialUpdate d m =
      Inr \<lparr> setCols = join_str '', '' (set_cols d m), values_r = object_values d \<rparr>"
  by (simp add: sqlForPartialUpdate_def object_keys_def object_entries_empty)

lemma sqlForPartialUpdate_empty: "sqlForPartialUpdate [] m = Inl (BadRequestError ''No data'')"
  by (simp add: sqlForPartialUpdate_def object_keys_def object_entries_def)



text \<open>
  Claim C5. \<open>sqlForPartialUpdate\<close> signals an error exactly when the fields-to-update
  mapping has no entry, and the error is then the Bad Request \<open>No data\<close>. Every mapping with
  at least one entry gives a result, whatever its keys and values are.
\<close>

theorem sqlForPartialUpdate_error_iff:
  "((\<exists>e. sqlForPartialUpdate d m = Inl e) \<longleftrightarrow> d = [])
   \<and> (d = [] \<longrightarrow> sqlForPartialUpdate d m = Inl (BadRequestError ''No data'')
                 \<and> kind (BadRequestError ''No data'') = BadRequest)
   \<and> (d \<noteq> [] \<longrightarrow> (\<exists>r. sqlForPartialUpdate d m = Inr r))"
  by (cases "d = []") (simp_all add: sqlForPartialUpdate_empty sqlForPartialUpdate_nonempty)

theorem sqlForPartialUpdate_error_iff_witness:
  "sqlForPartialUpdate [] [(''firstName'', ''first_name'')] = Inl (BadRequestError ''No data'')
   \<and> (\<exists>r. sqlForPartialUpdate [(''age; --'', JObject [])] [] = Inr r)"
  using sqlForPartialUpdate_error_iff [of "[]" "[(''firstName'', ''first_name'')]"]
    sqlForPartialUpdate_error_iff [of "[(''age; --'', JObject [])]" "[]"]
  by simp




section \<open>Properties of the token service\<close>

lemma js_or_undefined: "js_or JUndefined b = b"
  by (simp add: js_or_def)

lemma createToken_user:
  "snd (createToken K t u) =
     (if get_prop u ''isAdmin'' = JUndefined then set_prop u ''isAdmin'' (JBool False) else u)"
  by (simp add: createToken_def Let_def)

lemma payload_iat:
  "set_prop [(''id'', a), (''isAdmin'', b), (''companyId'', c)] ''iat'' d
     = [(''id'', a), (''isAdmin'', b), (''companyId'', c), (''iat'', d)]"
  by (simp add: set_prop_def)

lemma createToken_token:
  "fst (createToken K t u) =
     Signed (json_object
       [(''id'', get_prop u ''id''),
        (''isAdmin'', js_or (get_prop u ''isAdmin'') (JBool False)),
        (''companyId'', get_prop u ''companyId''),
        (''iat'', JNumber (Fin (of_nat (t div 1000))))]) K"
  by (simp add: createToken_def Let_def jwt_sign_def payload_iat get_set_prop_same
      get_set_prop_other js_or_def)

lemma json_value_undefined: "json_value v = JUndefined \<longleftrightarrow> v = JUndefined"
  by (cases v) (auto split: jsnum.splits)

lemma claims_isAdmin:
  "get_prop (json_object [(''id'', a), (''isAdmin'', b), (''companyId'', c), (''iat'', d)]) ''isAdmin''
     = json_value b"
  by (simp add: json_object_def get_prop_def json_value_undefined)

lemma claims_iat:
  "get_prop (json_object [(''id'', a), (''isAdmin'', b), (''companyId'', c), (''iat'', d)]) ''iat''
     = json_value d"
  by (simp add: json_object_def get_prop_def json_value_undefined)

lemma claims_exp:
  "get_prop (json_object [(''id'', a), (''isAdmin'', b), (''companyId'', c), (''iat'', d)]) ''exp''
     = JUndefined"
  by (simp add: json_object_def get_prop_def json_value_undefined)

lemma createToken_verifies:
  "jwt_verify (fst (createToken K t u)) K now =
     Inr (json_object
       [(''id'', get_prop u ''id''),
        (''isAdmin'', js_or (get_prop u ''isAdmin'') (JBool False)),
        (''companyId'', get_prop u ''companyId''),
        (''iat'', JNumber (Fin (of_nat (t div 1000))))])"
  by (simp add: createToken_token claims_exp)

lemma js_or_falsy: "\<not> truthy v \<Longrightarrow> js_or v b = b"
  by (simp add: js_or_def)

text \<open>
  Claim C2. The token that \<open>createToken\<close> signs verifies under the same secret, at any later
  clock reading, and the verified claim holds \<open>isAdmin = false\<close> when the user's \<open>isAdmin\<close> is
  falsy or absent, and the user's own flag when that is the boolean \<open>true\<close> or \<open>false\<close>.
\<close>

theorem createToken_isAdmin_claim:
  "\<exists>claim. jwt_verify (fst (createToken SECRET_KEY t user)) SECRET_KEY now = Inr claim
      \<and> (\<not> truthy (get_prop user ''isAdmin'') \<longrightarrow> get_prop claim ''isAdmin'' = JBool False)
      \<and> (map_of user ''isAdmin'' = None \<longrightarrow> get_prop claim ''isAdmin'' = JBool False)
      \<and> (\<forall>b. get_prop user ''isAdmin'' = JBool b \<longrightarrow> get_prop claim ''isAdmin'' = JBool b)"
proof -
  let ?claim = "json_object
       [(''id'', get_prop user ''id''),
        (''isAdmin'', js_or (get_prop user ''isAdmin'') (JBool False)),
        (''companyId'', get_prop user ''companyId''),
        (''iat'', JNumber (Fin (of_nat (t div 1000))))]"
  have v: "jwt_verify (fst (createToken SECRET_KEY t user)) SECRET_KEY now = Inr ?claim"
    by (rule createToken_verifies)
  show ?thesis
    by (simp add: v claims_isAdmin js_or_def get_prop_absent)
qed

theorem createToken_isAdmin_claim_witness:
  "(\<exists>claim. jwt_verify (fst (createToken ''secret-dev'' 1700000000000 [(''id'', JNumber (Fin 1))]))
               ''secret-dev'' 1700000005000 = Inr claim
      \<and> get_prop claim ''isAdmin'' = JBool False)
   \<and> (\<exists>claim. jwt_verify (fst (createToken ''secret-dev'' 1700000000000
                 [(''id'', JNumber (Fin 1)), (''isAdmin'', JBool True)]))
               ''secret-dev'' 1700000005000 = Inr claim
      \<and> get_prop claim ''isAdmin'' = JBool True)
   \<and> (\<exists>claim. jwt_verify (fst (createToken ''secret-dev'' 1700000000000
                 [(''id'', JNumber (Fin 1)), (''isAdmin'', JNumber (Fin 0))]))
               ''secret-dev'' 1700000005000 = Inr claim
      \<and> get_prop claim ''isAdmin'' = JBool False)"
proof -
  have absent: "map_of [(''id'', JNumber (Fin 1))] ''isAdmin'' = None"
    by simp
  have explicit: "get_prop [(''id'', JNumber (Fin 1)), (''isAdmin'', JBool True)] ''isAdmin'' = JBool True"
    by (simp add: get_prop_def)
  have falsy: "\<not> truthy (get_prop [(''id'', JNumber (Fin 1)), (''isAdmin'', JNumber (Fin 0))] ''isAdmin'')"
    by (simp add: get_prop_def)
  from createToken_isAdmin_claim
      [of "''secret-dev''" 1700000000000 "[(''id'', JNumber (Fin 1))]" 1700000005000]
  obtain c1 where c1:
      "jwt_verify (fst (createToken ''secret-dev'' 1700000000000 [(''id'', JNumber (Fin 1))]))
         ''secret-dev'' 1700000005000 = Inr c1"
      "map_of [(''id'', JNumber (Fin 1))] ''isAdmin'' = None \<longrightarrow> get_prop c1 ''isAdmin'' = JBool False"
    by (elim exE conjE)
  from createToken_isAdmin_claim
      [of "''secret-dev''" 1700000000000 "[(''id'', JNumber (Fin 1)), (''isAdmin'', JBool True)]" 1700000005000]
  obtain c2 where c2:
      "jwt_verify (fst (createToken ''secret-dev'' 1700000000000
           [(''id'', JNumber (Fin 1)), (''isAdmin'', JBool True)])) ''secret-dev'' 1700000005000 = Inr c2"
      "\<forall>b. get_prop [(''id'', JNumber (Fin 1)), (''isAdmin'', JBool True)] ''isAdmin'' = JBool b
           \<longrightarrow> get_prop c2 ''isAdmin'' = JBool b"
    by (elim exE conjE)
  from createToken_isAdmin_claim
      [of "''secret-dev''" 1700000000000 "[(''id'', JNumber (Fin 1)), (''isAdmin'', JNumber (Fin 0))]" 1700000005000]
  obtain c3 where c3:
      "jwt_verify (fst (createToken ''secret-dev'' 1700000000000
           [(''id'', JNumber (Fin 1)), (''isAdmin'', JNumber (Fin 0))])) ''secret-dev'' 1700000005000 = Inr c3"
      "\<not> truthy (get_prop [(''id'', JNumber (Fin 1)), (''isAdmin'', JNumber (Fin 0))] ''isAdmin'')
           \<longrightarrow> get_prop c3 ''isAdmin'' = JBool False"
    by (elim exE conjE)
  from c1(2) absent have r1: "get_prop c1 ''isAdmin'' = JBool False" by (rule mp)
  from c2(2) [rule_format, OF explicit] have r2: "get_prop c2 ''isAdmin'' = JBool True" .
  from c3(2) falsy have r3: "get_prop c3 ''isAdmin'' = JBool False" by (rule mp)
  from c1(1) r1 c2(1) r2 c3(1) r3 show ?thesis
    by (intro conjI exI [of _ c1] exI [of _ c2] exI [of _ c3])
qed

lemma createToken_iat:
  "\<exists>c. fst (createToken K t u) = Signed c K
     \<and> get_prop c ''iat'' = JNumber (Fin (of_nat (t div 1000)))"
  by (simp add: createToken_token claims_iat)

lemma createToken_differ:
  assumes "t1 div 1000 \<noteq> t2 div 1000"
  shows "fst (createToken K t1 u1) \<noteq> fst (createToken K t2 u2)"
proof
  assume eq: "fst (createToken K t1 u1) = fst (createToken K t2 u2)"
  obtain c1 where c1: "fst (createToken K t1 u1) = Signed c1 K"
      "get_prop c1 ''iat'' = JNumber (Fin (of_nat (t1 div 1000)))"
    using createToken_iat by blast
  obtain c2 where c2: "fst (createToken K t2 u2) = Signed c2 K"
      "get_prop c2 ''iat'' = JNumber (Fin (of_nat (t2 div 1000)))"
    using createToken_iat by blast
  from eq c1(1) c2(1) have "c1 = c2" by simp
  with c1(2) c2(2) have "(of_nat (t1 div 1000) :: rat) = of_nat (t2 div 1000)" by simp
  with assms show False by simp
qed

lemma createToken_same_second:
  assumes "t1 div 1000 = t2 div 1000"
  shows "fst (createToken K t1 u) = fst (createToken K t2 u)"
  using assms by (simp add: createToken_token)

lemma createToken_second_call:
  "fst (createToken K t2 (snd (createToken K t1 u))) = fst (createToken K t2 u)"
  by (simp add: createToken_token createToken_user get_set_prop_same get_set_prop_other js_or_def)

text \<open>
  Claim C7 says that two calls at different times give different tokens. Two calls on the
  same user 876 milliseconds apart, inside one second of the clock, give the same token.
\<close>

theorem createToken_same_second_counterexample:
  "(10123 :: nat) \<noteq> 10999
   \<and> fst (createToken ''secret-dev'' 10123 [(''id'', JNumber (Fin 1)), (''isAdmin'', JBool False)])
     = fst (createToken ''secret-dev'' 10999 [(''id'', JNumber (Fin 1)), (''isAdmin'', JBool False)])"
  by (simp add: createToken_def jwt_sign_def get_prop_def)

text \<open>
  Claim C7, amended. Two calls of \<open>createToken\<close> on the same user give different tokens
  exactly when they fall in different whole seconds of the clock, whether the second call gets
  the user as it was or as the first call left it; and each token, whenever it was signed,
  verifies under the secret that signed it.
\<close>

theorem createToken_fresh_each_second:
  "(fst (createToken SECRET_KEY t1 user) \<noteq> fst (createToken SECRET_KEY t2 user)
      \<longleftrightarrow> t1 div 1000 \<noteq> t2 div 1000)
   \<and> (fst (createToken SECRET_KEY t1 user)
         \<noteq> fst (createToken SECRET_KEY t2 (snd (createToken SECRET_KEY t1 user)))
      \<longleftrightarrow> t1 div 1000 \<noteq> t2 div 1000)
   \<and> (\<exists>c1. jwt_verify (fst (createToken SECRET_KEY t1 user)) SECRET_KEY now = Inr c1)
   \<and> (\<exists>c2. jwt_verify (fst (createToken SECRET_KEY t2 user)) SECRET_KEY now = Inr c2)
   \<and> (\<exists>c3. jwt_verify (fst (createToken SECRET_KEY t2 (snd (createToken SECRET_KEY t1 user))))
             SECRET_KEY now = Inr c3)"
proof -
  have differ: "fst (createToken SECRET_KEY t1 user) \<noteq> fst (createToken SECRET_KEY t2 user)
      \<longleftrightarrow> t1 div 1000 \<noteq> t2 div 1000"
    using createToken_differ [of t1 t2 SECRET_KEY user user]
      createToken_same_second [of t1 t2 SECRET_KEY user]
    by (cases "t1 div 1000 = t2 div 1000") simp_all
  then show ?thesis
    by (simp add: createToken_second_call createToken_verifies)
qed

theorem createToken_fresh_each_second_witness:
  "fst (createToken ''secret-dev'' 10999 [(''id'', JNumber (Fin 1)), (''isAdmin'', JBool True)])
       \<noteq> fst (createToken ''secret-dev'' 11000 [(''id'', JNumber (Fin 1)), (''isAdmin'', JBool True)])
   \<and> fst (createToken ''secret-dev'' 10123 [(''id'', JNumber (Fin 1)), (''isAdmin'', JBool True)])
       = fst (createToken ''secret-dev'' 10999 [(''id'', JNumber (Fin 1)), (''isAdmin'', JBool True)])"
proof -
  let ?u = "[(''id'', JNumber (Fin 1)), (''isAdmin'', JBool True)]"
  have apart: "(10999 :: nat) div 1000 \<noteq> 11000 div 1000" by simp
  have together: "\<not> (10123 :: nat) div 1000 \<noteq> 10999 div 1000" by simp
  note t = createToken_fresh_each_second [THEN conjunct1]
  from apart have a: "fst (createToken ''secret-dev'' 10999 ?u) \<noteq> fst (createToken ''secret-dev'' 11000 ?u)"
    by (rule t [THEN iffD2])
  from together have "\<not> fst (createToken ''secret-dev'' 10123 ?u) \<noteq> fst (createToken ''secret-dev'' 10999 ?u)"
    unfolding t [of "''secret-dev''" 10123 ?u 10999] .
  then have b: "fst (createToken ''secret-dev'' 10123 ?u) = fst (createToken ''secret-dev'' 10999 ?u)"
    by (rule notnotD)
  from a b show ?thesis by (intro conjI)
qed

text \<open>
  Claim C8 says that \<open>createToken\<close> leaves the user object as it was. On a user without
  \<open>isAdmin\<close> the call adds the property to the caller's object.
\<close>

theorem createToken_mutates_user_counterexample:
  "snd (createToken ''secret-dev'' 1700000000000 [(''id'', JNumber (Fin 1))])
     = [(''id'', JNumber (Fin 1)), (''isAdmin'', JBool False)]
   \<and> snd (createToken ''secret-dev'' 1700000000000 [(''id'', JNumber (Fin 1))])
     \<noteq> [(''id'', JNumber (Fin 1))]"
  by (simp add: createToken_def get_prop_def set_prop_def)

text \<open>
  Claim C8, amended. A user whose \<open>isAdmin\<close> is defined is left as it was. A user whose
  \<open>isAdmin\<close> is \<open>undefined\<close> (absent included) gets \<open>isAdmin = false\<close> written to it. In both
  cases every other property reads as before, and the object without \<open>isAdmin\<close> is the same.
\<close>

theorem createToken_argument_effect:
  "(get_prop user ''isAdmin'' \<noteq> JUndefined \<longrightarrow> snd (createToken SECRET_KEY t user) = user)
   \<and> (get_prop user ''isAdmin'' = JUndefined \<longrightarrow>
        snd (createToken SECRET_KEY t user) = set_prop user ''isAdmin'' (JBool False)
        \<and> get_prop (snd (createToken SECRET_KEY t user)) ''isAdmin'' = JBool False)
   \<and> (\<forall>k. k \<noteq> ''isAdmin'' \<longrightarrow> get_prop (snd (createToken SECRET_KEY t user)) k = get_prop user k)
   \<and> delete_prop (snd (createToken SECRET_KEY t user)) ''isAdmin'' = delete_prop user ''isAdmin''"
  by (simp add: createToken_user get_set_prop_same get_set_prop_other delete_set_prop_same)

theorem createToken_argument_effect_witness:
  "snd (createToken ''secret-dev'' 1700000000000 [(''id'', JNumber (Fin 1)), (''isAdmin'', JBool True)])
     = [(''id'', JNumber (Fin 1)), (''isAdmin'', JBool True)]
   \<and> get_prop (snd (createToken ''secret-dev'' 1700000000000 [(''id'', JNumber (Fin 1))])) ''isAdmin''
       = JBool False
   \<and> get_prop (snd (createToken ''secret-dev'' 1700000000000 [(''id'', JNumber (Fin 1))])) ''id''
       = JNumber (Fin 1)"
proof -
  note admin = createToken_argument_effect
      [of "[(''id'', JNumber (Fin 1)), (''isAdmin'', JBool True)]" "''secret-dev''" 1700000000000]
  note plain = createToken_argument_effect
      [of "[(''id'', JNumber (Fin 1))]" "''secret-dev''" 1700000000000]
  have unchanged:
    "snd (createToken ''secret-dev'' 1700000000000 [(''id'', JNumber (Fin 1)), (''isAdmin'', JBool True)])
       = [(''id'', JNumber (Fin 1)), (''isAdmin'', JBool True)]"
    by (rule admin [THEN conjunct1, rule_format]) (simp add: get_prop_def)
  have absent: "get_prop [(''id'', JNumber (Fin 1))] ''isAdmin'' = JUndefined"
    by (simp add: get_prop_def)
  have defaulted:
    "get_prop (snd (createToken ''secret-dev'' 1700000000000 [(''id'', JNumber (Fin 1))])) ''isAdmin''
       = JBool False"
    using plain [THEN conjunct2, THEN conjunct1, rule_format, OF absent] by (rule conjunct2)
  have "get_prop (snd (createToken ''secret-dev'' 1700000000000 [(''id'', JNumber (Fin 1))])) ''id''
       = get_prop [(''id'', JNumber (Fin 1))] ''id''"
    by (rule plain [THEN conjunct2, THEN conjunct2, THEN conjunct1, rule_format]) simp
  then have kept:
    "get_prop (snd (createToken ''secret-dev'' 1700000000000 [(''id'', JNumber (Fin 1))])) ''id''
       = JNumber (Fin 1)"
    by (simp add: get_prop_def)
  from unchanged defaulted kept show ?thesis by (intro conjI)
qed

section \<open>Properties of the auth middleware\<close>

text \<open>
  Claim C1. \<open>authenticateJWT\<close> always calls onward with no error. When the request has no
  bearer token, or the token fails verification for whatever reason, the response (and with it
  the identity slot) is left as it was, and the outcome is the outcome of the same request
  without the header.
\<close>

theorem authenticateJWT_never_rejects:
  "snd (authenticateJWT SECRET_KEY clock req res) = None
   \<and> (bearer req = None \<or> (\<exists>tok err. bearer req = Some tok \<and> jwt_verify tok SECRET_KEY clock = Inl err)
        \<longrightarrow> authenticateJWT SECRET_KEY clock req res = (res, None)
          \<and> authenticateJWT SECRET_KEY clock req res
              = authenticateJWT SECRET_KEY clock (req\<lparr>bearer := None\<rparr>) res)"
  by (auto simp: authenticateJWT_def split: option.splits sum.splits)

theorem authenticateJWT_never_rejects_witness:
  "authenticateJWT ''secret-dev'' 1700000000000
       \<lparr>bearer = Some (Signed [(''id'', JNumber (Fin 1)), (''isAdmin'', JBool False)] ''wrong''),
        resource_owner = JUndefined\<rparr> \<lparr>locals_user = None\<rparr>
     = (\<lparr>locals_user = None\<rparr>, None)
   \<and> authenticateJWT ''secret-dev'' 1700000000000
       \<lparr>bearer = Some (Malformed ''abc''), resource_owner = JUndefined\<rparr> \<lparr>locals_user = None\<rparr>
     = (\<lparr>locals_user = None\<rparr>, None)
   \<and> authenticateJWT ''secret-dev'' 1700000000000
       \<lparr>bearer = Some (Signed [(''id'', JNumber (Fin 1)), (''exp'', JNumber (Fin 1600000000))] ''secret-dev''),
        resource_owner = JUndefined\<rparr> \<lparr>locals_user = None\<rparr>
     = (\<lparr>locals_user = None\<rparr>, None)
   \<and> authenticateJWT ''secret-dev'' 1700000000000
       \<lparr>bearer = None, resource_owner = JUndefined\<rparr> \<lparr>locals_user = None\<rparr>
     = (\<lparr>locals_user = None\<rparr>, None)"
proof -
  let ?bad = "Signed [(''id'', JNumber (Fin 1)), (''isAdmin'', JBool False)] ''wrong''"
  let ?old = "Signed [(''id'', JNumber (Fin 1)), (''exp'', JNumber (Fin 1600000000))] ''secret-dev''"
  have bad: "bearer \<lparr>bearer = Some ?bad, resource_owner = JUndefined\<rparr> = None
      \<or> (\<exists>tok err. bearer \<lparr>bearer = Some ?bad, resource_owner = JUndefined\<rparr> = Some tok
            \<and> jwt_verify tok ''secret-dev'' 1700000000000 = Inl err)"
    by simp
  have garbled: "bearer \<lparr>bearer = Some (Malformed ''abc''), resource_owner = JUndefined\<rparr> = None
      \<or> (\<exists>tok err. bearer \<lparr>bearer = Some (Malformed ''abc''), resource_owner = JUndefined\<rparr> = Some tok
            \<and> jwt_verify tok ''secret-dev'' 1700000000000 = Inl err)"
    by simp
  have old: "bearer \<lparr>bearer = Some ?old, resource_owner = JUndefined\<rparr> = None
      \<or> (\<exists>tok err. bearer \<lparr>bearer = Some ?old, resource_owner = JUndefined\<rparr> = Some tok
            \<and> jwt_verify tok ''secret-dev'' 1700000000000 = Inl err)"
    by (simp add: get_prop_def)
  have none: "bearer \<lparr>bearer = None, resource_owner = JUndefined\<rparr> = None
      \<or> (\<exists>tok err. bearer \<lparr>bearer = None, resource_owner = JUndefined\<rparr> = Some tok
            \<and> jwt_verify tok ''secret-dev'' 1700000000000 = Inl err)"
    by simp
  note r = authenticateJWT_never_rejects [THEN conjunct2, rule_format, THEN conjunct1]
  from r [OF bad] r [OF garbled] r [OF old] r [OF none] show ?thesis
    by (intro conjI)
qed

text \<open>
  Claim C3. \<open>ensureAdmin\<close> calls onward with no error exactly when an identity is present
  and its \<open>isAdmin\<close> flag is \<open>true\<close>; whenever it does not, it signals Unauthorized.
\<close>

theorem ensureAdmin_passes_iff:
  "(ensureAdmin req res = None
      \<longleftrightarrow> (\<exists>user. locals_user res = Some user \<and> get_prop user ''isAdmin'' = JBool True))
   \<and> (ensureAdmin req res \<noteq> None \<longrightarrow> ensureAdmin req res = Some Unauthorized)"
  by (auto simp: ensureAdmin_def split: option.splits)

theorem ensureAdmin_passes_iff_witness:
  "ensureAdmin \<lparr>bearer = None, resource_owner = JUndefined\<rparr>
       \<lparr>locals_user = Some [(''id'', JNumber (Fin 1)), (''isAdmin'', JBool True)]\<rparr> = None
   \<and> ensureAdmin \<lparr>bearer = None, resource_owner = JUndefined\<rparr>
       \<lparr>locals_user = Some [(''id'', JNumber (Fin 1)), (''isAdmin'', JBool False)]\<rparr> = Some Unauthorized
   \<and> ensureAdmin \<lparr>bearer = None, resource_owner = JUndefined\<rparr> \<lparr>locals_user = None\<rparr>
       = Some Unauthorized"
proof -
  let ?req = "\<lparr>bearer = None, resource_owner = JUndefined\<rparr>"
  let ?admin = "\<lparr>locals_user = Some [(''id'', JNumber (Fin 1)), (''isAdmin'', JBool True)]\<rparr>"
  let ?plain = "\<lparr>locals_user = Some [(''id'', JNumber (Fin 1)), (''isAdmin'', JBool False)]\<rparr>"
  let ?anon = "\<lparr>locals_user = None\<rparr>"
  note pass = ensureAdmin_passes_iff [THEN conjunct1]
  note fail = ensureAdmin_passes_iff [THEN conjunct2, rule_format]
  have "\<exists>user. locals_user ?admin = Some user \<and> get_prop user ''isAdmin'' = JBool True"
    by (simp add: get_prop_def)
  then have a: "ensureAdmin ?req ?admin = None"
    by (rule pass [THEN iffD2])
  have "\<not> (\<exists>user. locals_user ?plain = Some user \<and> get_prop user ''isAdmin'' = JBool True)"
    by (simp add: get_prop_def)
  then have "ensureAdmin ?req ?plain \<noteq> None"
    unfolding pass [of ?req ?plain] .
  then have b: "ensureAdmin ?req ?plain = Some Unauthorized"
    by (rule fail)
  have "\<not> (\<exists>user. locals_user ?anon = Some user \<and> get_prop user ''isAdmin'' = JBool True)"
    by simp
  then have "ensureAdmin ?req ?anon \<noteq> None"
    unfolding pass [of ?req ?anon] .
  then have c: "ensureAdmin ?req ?anon = Some Unauthorized"
    by (rule fail)
  from a b c show ?thesis by (intro conjI)
qed

text \<open>
  Claim C4. \<open>ensureLoggedIn\<close> calls onward with no error exactly when an identity is
  present, and whichever of the three guards fails, on whatever request, the failure is
  Unauthorized.
\<close>

theorem guards_fail_unauthorized:
  "(ensureLoggedIn req res = None \<longleftrightarrow> locals_user res \<noteq> None)
   \<and> (ensureLoggedIn req res \<noteq> None \<longrightarrow> ensureLoggedIn req res = Some Unauthorized)
   \<and> (ensureAdmin req res \<noteq> None \<longrightarrow> ensureAdmin req res = Some Unauthorized)
   \<and> (ensureCorrectUserOrAdmin req res \<noteq> None
        \<longrightarrow> ensureCorrectUserOrAdmin req res = Some Unauthorized)"
  by (auto simp: ensureLoggedIn_def ensureAdmin_def ensureCorrectUserOrAdmin_def
      split: option.splits if_splits)

theorem guards_fail_unauthorized_witness:
  "ensureLoggedIn \<lparr>bearer = None, resource_owner = JNumber (Fin 2)\<rparr>
       \<lparr>locals_user = Some [(''id'', JNumber (Fin 1)), (''isAdmin'', JBool False)]\<rparr> = None
   \<and> ensureLoggedIn \<lparr>bearer = None, resource_owner = JNumber (Fin 2)\<rparr> \<lparr>locals_user = None\<rparr>
       = Some Unauthorized
   \<and> ensureAdmin \<lparr>bearer = None, resource_owner = JNumber (Fin 2)\<rparr>
       \<lparr>locals_user = Some [(''id'', JNumber (Fin 1)), (''isAdmin'', JBool False)]\<rparr> = Some Unauthorized
   \<and> ensureCorrectUserOrAdmin \<lparr>bearer = None, resource_owner = JNumber (Fin 2)\<rparr>
       \<lparr>locals_user = Some [(''id'', JNumber (Fin 1)), (''isAdmin'', JBool False)]\<rparr> = Some Unauthorized"
proof -
  let ?req = "\<lparr>bearer = None, resource_owner = JNumber (Fin 2)\<rparr>"
  let ?plain = "\<lparr>locals_user = Some [(''id'', JNumber (Fin 1)), (''isAdmin'', JBool False)]\<rparr>"
  let ?anon = "\<lparr>locals_user = None\<rparr>"
  note g = guards_fail_unauthorized
  have "locals_user ?plain \<noteq> None" by simp
  then have a: "ensureLoggedIn ?req ?plain = None"
    by (rule g [THEN conjunct1, THEN iffD2])
  have "\<not> locals_user ?anon \<noteq> None" by simp
  then have "ensureLoggedIn ?req ?anon \<noteq> None"
    unfolding g [THEN conjunct1, of ?req ?anon] .
  then have b: "ensureLoggedIn ?req ?anon = Some Unauthorized"
    by (rule g [THEN conjunct2, THEN conjunct1, rule_format])
  have "ensureAdmin ?req ?plain \<noteq> None"
    by (simp add: ensureAdmin_def get_prop_def)
  then have c: "ensureAdmin ?req ?plain = Some Unauthorized"
    by (rule g [THEN conjunct2, THEN conjunct2, THEN conjunct1, rule_format])
  have "ensureCorrectUserOrAdmin ?req ?plain \<noteq> None"
    by (simp add: ensureCorrectUserOrAdmin_def get_prop_def)
  then have d: "ensureCorrectUserOrAdmin ?req ?plain = Some Unauthorized"
    by (rule g [THEN conjunct2, THEN conjunct2, THEN conjunct2, rule_format])
  from a b c d show ?thesis by (intro conjI)
qed

section \<open>Properties of the user model\<close>

lemma select_user_none:
  "find (\<lambda>r. user_email r = email) users = None \<Longrightarrow> select_user_by_email users email = []"
  by (induction users) (auto simp: select_user_by_email_def split: if_splits)

lemma select_user_first:
  "find (\<lambda>r. user_email r = email) users = Some r \<Longrightarrow>
     \<exists>rest. select_user_by_email users email = user_object r # rest"
  by (induction users) (auto simp: select_user_by_email_def split: if_splits)

lemma stored_password: "get_prop (user_object r) ''password'' = JString (user_password r)"
  by (simp add: get_prop_def user_object_def)

lemma authenticate_no_user:
  assumes "find (\<lambda>r. user_email r = email) users = None"
  shows "authenticate compare users email password = Inl (UnauthorizedError ''Invalid email/password'')"
  using select_user_none [OF assms] by (simp add: authenticate_def)

lemma authenticate_user:
  assumes "find (\<lambda>r. user_email r = email) users = Some r"
  shows "authenticate compare users email password =
           (case compare password (JString (user_password r)) of
              Inl e \<Rightarrow> Inl e
            | Inr isValid \<Rightarrow>
                if isValid then Inr (delete_prop (user_object r) ''password'')
                else Inl (UnauthorizedError ''Invalid email/password''))"
proof -
  from select_user_first [OF assms] obtain rest
    where "select_user_by_email users email = user_object r # rest" ..
  then show ?thesis by (simp add: authenticate_def stored_password split: sum.splits)
qed

lemma user_without_password:
  "delete_prop (user_object r) ''password'' =
     [(''id'', JNumber (Fin (of_int (user_id r)))),
      (''email'', JString (user_email r)),
      (''fullName'', JString (user_full_name r)),
      (''phone'', (case user_phone r of None \<Rightarrow> JNull | Some p \<Rightarrow> JString p)),
      (''isAdmin'', JBool (user_is_admin r)),
      (''companyId'', JNumber (Fin (of_int (user_company_id r))))]"
  by (simp add: delete_prop_def user_object_def)

lemma password_removed:
  "''password'' \<notin> set (object_keys (delete_prop (user_object r) ''password''))"
  by (simp add: user_without_password set_object_keys)

text \<open>
  Claim C9. \<open>User.authenticate\<close> throws the same \<open>UnauthorizedError\<close> with the message
  \<open>Invalid email/password\<close> when no row has the email and when the first row with the email
  fails the password comparison. A user it returns is the row of that email whose password
  compared equal, without the \<open>password\<close> property.
\<close>

theorem authenticate_same_failure:
  "(find (\<lambda>r. user_email r = email) users = None \<longrightarrow>
      authenticate compare users email password = Inl (UnauthorizedError ''Invalid email/password''))
   \<and> (\<forall>r. find (\<lambda>r. user_email r = email) users = Some r
            \<and> compare password (JString (user_password r)) = Inr False \<longrightarrow>
      authenticate compare users email password = Inl (UnauthorizedError ''Invalid email/password''))
   \<and> kind (UnauthorizedError ''Invalid email/password'') = Unauthorized
   \<and> (\<forall>user. authenticate compare users email password = Inr user \<longrightarrow>
        ''password'' \<notin> set (object_keys user)
        \<and> (\<exists>r. find (\<lambda>r. user_email r = email) users = Some r
              \<and> compare password (JString (user_password r)) = Inr True
              \<and> user = delete_prop (user_object r) ''password''))"
proof (intro conjI allI impI)
  assume "find (\<lambda>r. user_email r = email) users = None"
  then show "authenticate compare users email password = Inl (UnauthorizedError ''Invalid email/password'')"
    by (rule authenticate_no_user)
next
  fix r
  assume "find (\<lambda>r. user_email r = email) users = Some r
            \<and> compare password (JString (user_password r)) = Inr False"
  then show "authenticate compare users email password = Inl (UnauthorizedError ''Invalid email/password'')"
    by (simp add: authenticate_user)
next
  show "kind (UnauthorizedError ''Invalid email/password'') = Unauthorized" by simp
next
  fix user
  assume ok: "authenticate compare users email password = Inr user"
  show "''password'' \<notin> set (object_keys user)"
  proof (cases "find (\<lambda>r. user_email r = email) users")
    case None
    with ok show ?thesis by (simp add: authenticate_no_user)
  next
    case (Some r)
    with ok have "user = delete_prop (user_object r) ''password''"
      by (simp add: authenticate_user split: sum.splits if_splits)
    then show ?thesis by (simp only: password_removed not_False_eq_True)
  qed
  show "\<exists>r. find (\<lambda>r. user_email r = email) users = Some r
              \<and> compare password (JString (user_password r)) = Inr True
              \<and> user = delete_prop (user_object r) ''password''"
  proof (cases "find (\<lambda>r. user_email r = email) users")
    case None
    with ok show ?thesis by (simp add: authenticate_no_user)
  next
    case (Some r)
    with ok show ?thesis
      by (simp add: authenticate_user split: sum.splits if_splits)
  qed
qed

theorem authenticate_same_failure_witness:
  "authenticate (\<lambda>pw hash. Inr (hash = JString (''hash of '' @ pw)))
       [\<lparr>user_id = 1, user_email = ''u1@example.com'', user_password = ''hash of pw1'',
         user_full_name = ''User One'', user_phone = None, user_is_admin = False,
         user_company_id = 1\<rparr>]
       ''nobody@example.com'' ''pw1''
     = Inl (UnauthorizedError ''Invalid email/password'')
   \<and> authenticate (\<lambda>pw hash. Inr (hash = JString (''hash of '' @ pw)))
       [\<lparr>user_id = 1, user_email = ''u1@example.com'', user_password = ''hash of pw1'',
         user_full_name = ''User One'', user_phone = None, user_is_admin = False,
         user_company_id = 1\<rparr>]
       ''u1@example.com'' ''nope''
     = Inl (UnauthorizedError ''Invalid email/password'')
   \<and> authenticate (\<lambda>pw hash. Inr (hash = JString (''hash of '' @ pw)))
       [\<lparr>user_id = 1, user_email = ''u1@example.com'', user_password = ''hash of pw1'',
         user_full_name = ''User One'', user_phone = None, user_is_admin = False,
         user_company_id = 1\<rparr>]
       ''u1@example.com'' ''pw1''
     = Inr [(''id'', JNumber (Fin 1)), (''email'', JString ''u1@example.com''),
            (''fullName'', JString ''User One''), (''phone'', JNull),
            (''isAdmin'', JBool False), (''companyId'', JNumber (Fin 1))]
   \<and> ''password'' \<notin> set (object_keys
         [(''id'', JNumber (Fin 1)), (''email'', JString ''u1@example.com''),
          (''fullName'', JString ''User One''), (''phone'', JNull),
          (''isAdmin'', JBool False), (''companyId'', JNumber (Fin 1))])"
proof -
  let ?cmp = "\<lambda>pw hash. Inr (hash = JString (''hash of '' @ pw)) :: error + bool"
  let ?u1 = "\<lparr>user_id = 1, user_email = ''u1@example.com'', user_password = ''hash of pw1'',
         user_full_name = ''User One'', user_phone = None, user_is_admin = False,
         user_company_id = 1\<rparr>"
  let ?out = "[(''id'', JNumber (Fin 1)), (''email'', JString ''u1@example.com''),
            (''fullName'', JString ''User One''), (''phone'', JNull),
            (''isAdmin'', JBool False), (''companyId'', JNumber (Fin 1))]"
  have nobody: "find (\<lambda>r. user_email r = ''nobody@example.com'') [?u1] = None"
    by simp
  have wrong: "find (\<lambda>r. user_email r = ''u1@example.com'') [?u1] = Some ?u1
      \<and> ?cmp ''nope'' (JString (user_password ?u1)) = Inr False"
    by simp
  have ok: "authenticate ?cmp [?u1] ''u1@example.com'' ''pw1'' = Inr ?out"
    by (simp add: authenticate_def select_user_by_email_def user_object_def delete_prop_def get_prop_def)
  note t = authenticate_same_failure
  have a: "authenticate ?cmp [?u1] ''nobody@example.com'' ''pw1''
      = Inl (UnauthorizedError ''Invalid email/password'')"
    by (rule t [where compare = ?cmp and password = "''pw1''", THEN conjunct1, rule_format, OF nobody])
  have b: "authenticate ?cmp [?u1] ''u1@example.com'' ''nope''
      = Inl (UnauthorizedError ''Invalid email/password'')"
    by (rule t [where compare = ?cmp and password = "''nope''",
          THEN conjunct2, THEN conjunct1, rule_format, OF wrong])
  have c: "''password'' \<notin> set (object_keys ?out)"
    by (rule t [where compare = ?cmp and password = "''pw1''",
          THEN conjunct2, THEN conjunct2, THEN conjunct2, rule_format, OF ok, THEN conjunct1])
  from a b ok c show ?thesis by (intro conjI)
qed

section \<open>Properties of the RFQ model\<close>

text \<open>
  Claim C10. \<open>Rfq.createRfqItem\<close> throws a Bad Request, and leaves the database alone
  whatever the query function is, when \<open>company_id\<close> is falsy (absent included) and when
  \<open>quantity <= 0\<close>; in every other case its outcome is the outcome of the INSERT on the six
  values in order, with the first returned row as the result.
\<close>

theorem createRfqItem_validation:
  "(\<not> truthy (get_prop args ''company_id'') \<longrightarrow>
      createRfqItem coerce query args db = (Inl (BadRequestError ''Company ID is required.''), db))
   \<and> (truthy (get_prop args ''company_id'') \<and> js_le_num coerce (get_prop args ''quantity'') (Fin 0) \<longrightarrow>
      createRfqItem coerce query args db = (Inl (BadRequestError ''Quantity must be greater than 0.''), db))
   \<and> (\<not> truthy (get_prop args ''company_id'') \<or> js_le_num coerce (get_prop args ''quantity'') (Fin 0) \<longrightarrow>
      (\<exists>e. createRfqItem coerce query args db = (Inl e, db) \<and> kind e = BadRequest)
      \<and> (\<forall>query'. createRfqItem coerce query' args db = createRfqItem coerce query args db))
   \<and> (truthy (get_prop args ''company_id'') \<and> \<not> js_le_num coerce (get_prop args ''quantity'') (Fin 0) \<longrightarrow>
      createRfqItem coerce query args db =
        (case query [get_prop args ''rfq_id'', get_prop args ''company_id'', get_prop args ''item_code'',
                     get_prop args ''quantity'', get_prop args ''item_description'',
                     get_prop args ''item_cost''] db of
           (Inl e, db') \<Rightarrow> (Inl e, db')
         | (Inr rows, db') \<Rightarrow>
             (Inr (case rows of [] \<Rightarrow> JUndefined | rfqItem # _ \<Rightarrow> JObject rfqItem), db')))"
  by (auto simp: createRfqItem_def Let_def)

theorem createRfqItem_validation_witness:
  "createRfqItem (\<lambda>v. NaN) (\<lambda>vals db. (Inr [[(''id'', JNumber (Fin 1)), (''quantity'', vals ! 3)]], db @ [vals]))
       [(''rfq_id'', JNumber (Fin 7)), (''item_code'', JString ''item001''), (''quantity'', JNumber (Fin 5))]
       []
     = (Inl (BadRequestError ''Company ID is required.''), [])
   \<and> createRfqItem (\<lambda>v. NaN) (\<lambda>vals db. (Inr [[(''id'', JNumber (Fin 1)), (''quantity'', vals ! 3)]], db @ [vals]))
       [(''rfq_id'', JNumber (Fin 7)), (''company_id'', JNumber (Fin 1)), (''quantity'', JNumber (Fin 0))]
       []
     = (Inl (BadRequestError ''Quantity must be greater than 0.''), [])
   \<and> createRfqItem (\<lambda>v. NaN) (\<lambda>vals db. (Inr [[(''id'', JNumber (Fin 1)), (''quantity'', vals ! 3)]], db @ [vals]))
       [(''rfq_id'', JNumber (Fin 7)), (''company_id'', JNumber (Fin 1)), (''quantity'', JNumber (Fin 5))]
       []
     = (Inr (JObject [(''id'', JNumber (Fin 1)), (''quantity'', JNumber (Fin 5))]),
        [[JNumber (Fin 7), JNumber (Fin 1), JUndefined, JNumber (Fin 5), JUndefined, JUndefined]])"
proof -
  let ?coerce = "(\<lambda>v. NaN) :: jsval \<Rightarrow> jsnum"
  let ?query = "(\<lambda>vals db. (Inr [[(''id'', JNumber (Fin 1)), (''quantity'', vals ! 3)]], db @ [vals]))
      :: jsval list \<Rightarrow> jsval list list \<Rightarrow> (error + jsobj list) \<times> jsval list list"
  let ?no_company = "[(''rfq_id'', JNumber (Fin 7)), (''item_code'', JString ''item001''),
      (''quantity'', JNumber (Fin 5))]"
  let ?zero = "[(''rfq_id'', JNumber (Fin 7)), (''company_id'', JNumber (Fin 1)),
      (''quantity'', JNumber (Fin 0))]"
  let ?good = "[(''rfq_id'', JNumber (Fin 7)), (''company_id'', JNumber (Fin 1)),
      (''quantity'', JNumber (Fin 5))]"
  note t = createRfqItem_validation
  have h1: "\<not> truthy (get_prop ?no_company ''company_id'')"
    by (simp add: get_prop_def)
  have h2: "truthy (get_prop ?zero ''company_id'')
      \<and> js_le_num ?coerce (get_prop ?zero ''quantity'') (Fin 0)"
    by (simp add: get_prop_def js_le_num_def)
  have h3: "truthy (get_prop ?good ''company_id'')
      \<and> \<not> js_le_num ?coerce (get_prop ?good ''quantity'') (Fin 0)"
    by (simp add: get_prop_def js_le_num_def)
  have a: "createRfqItem ?coerce ?query ?no_company []
      = (Inl (BadRequestError ''Company ID is required.''), [])"
    by (rule t [where coerce = ?coerce and query = ?query, THEN conjunct1, rule_format, OF h1])
  have b: "createRfqItem ?coerce ?query ?zero []
      = (Inl (BadRequestError ''Quantity must be greater than 0.''), [])"
    by (rule t [where coerce = ?coerce and query = ?query,
          THEN conjunct2, THEN conjunct1, rule_format, OF h2])
  have "createRfqItem ?coerce ?query ?good [] =
      (case ?query [get_prop ?good ''rfq_id'', get_prop ?good ''company_id'', get_prop ?good ''item_code'',
                     get_prop ?good ''quantity'', get_prop ?good ''item_description'',
                     get_prop ?good ''item_cost''] [] of
           (Inl e, db') \<Rightarrow> (Inl e, db')
         | (Inr rows, db') \<Rightarrow>
             (Inr (case rows of [] \<Rightarrow> JUndefined | rfqItem # _ \<Rightarrow> JObject rfqItem), db'))"
    by (rule t [where coerce = ?coerce and query = ?query,
          THEN conjunct2, THEN conjunct2, THEN conjunct2, rule_format, OF h3])
  then have c: "createRfqItem ?coerce ?query ?good []
      = (Inr (JObject [(''id'', JNumber (Fin 1)), (''quantity'', JNumber (Fin 5))]),
         [[JNumber (Fin 7), JNumber (Fin 1), JUndefined, JNumber (Fin 5), JUndefined, JUndefined]])"
    by (simp add: get_prop_def)
  from a b c show ?thesis by (intro conjI)
qed

end
